theory Spec2Isabelle
  imports Main "HOL-Library.Char_ord" "HOL-Library.List_Lexorder" "HOL-Library.AList"
    "HOL-Library.Sublist"
begin

section \<open>Response decoding synthesis of oapi-codegen: pkg/codegen/template_helpers.go\<close>

text \<open>
  Go strings are byte sequences and are compared bytewise; \<open>string\<close> with the order of
  \<open>Char_ord\<close> and \<open>List_Lexorder\<close> is the same order. Maps that the code iterates in
  sorted key order are association lists with one entry per key (\<open>AList.update\<close>
  overwrites, as an assignment \<open>m[k] = v\<close> does).
\<close>

subsection \<open>Text constants\<close>

definition nl :: string where
  "nl = [CHR 0x0A]"

definition dq :: string where
  "dq = [CHR 0x22]"

definition prefixMostSpecific :: string where
  "prefixMostSpecific = ''3''"

definition prefixLessSpecific :: string where
  "prefixLessSpecific = ''6''"

definition prefixLeastSpecific :: string where
  "prefixLeastSpecific = ''9''"

text \<open>
  Modelled from the spec: the constants \<open>MIMEApplicationJSON\<close>, \<open>MIMEApplicationXML\<close> and
  \<open>MIMETextXML\<close> come from package echo; section 4.1 of the specification lists the
  members of each family, which fixes their values. \<open>HeaderContentType\<close> is the header
  name of the same package.
\<close>

definition MIMEApplicationJSON :: string where
  "MIMEApplicationJSON = ''application/json''"

definition MIMEApplicationXML :: string where
  "MIMEApplicationXML = ''application/xml''"

definition MIMETextXML :: string where
  "MIMETextXML = ''text/xml''"

definition HeaderContentType :: string where
  "HeaderContentType = ''Content-Type''"

definition contentTypesJSON :: "string list" where
  "contentTypesJSON = [MIMEApplicationJSON, ''text/x-json'']"

definition contentTypesYAML :: "string list" where
  "contentTypesYAML = [''application/yaml'', ''application/x-yaml'', ''text/yaml'', ''text/x-yaml'']"

definition contentTypesXML :: "string list" where
  "contentTypesXML = [MIMEApplicationXML, MIMETextXML]"

definition responseTypeSuffix :: string where
  "responseTypeSuffix = ''Response''"

subsection \<open>Data model\<close>

text \<open>
  \<open>Schema\<close> and \<open>Property\<close> are the generator's Go-level schema; only the fields that
  template_helpers.go reads are kept. \<open>OAPISchema\<close> is a pointer to the declared
  OpenAPI schema (\<open>None\<close> is nil); the declared schemas live in a store, because
  \<open>asReducedTypeDefinition\<close> deletes from their property maps.
\<close>

datatype Schema =
  GoSchema (Properties: "Property list") (OAPISchema: "nat option") (Path: "string list")
    (GoType: string)
and Property =
  GoProperty (JsonFieldName: string) (PropSchema: Schema)

record TypeDefinition =
  TypeName :: string
  JsonName :: string
  Schema :: Schema

record ResponseTypeDefinition = TypeDefinition +
  ContentTypeName :: string
  ResponseName :: string

text \<open>
  An \<open>openapi3.Schema\<close> object: its \<open>Properties\<close> map, from property name to the
  address of the property's schema.
\<close>

record openapi3_Schema =
  oapiProperties :: "(string \<times> nat) list"

type_synonym oapi_store = "nat \<Rightarrow> openapi3_Schema"

text \<open>
  A declared response: \<open>Value\<close> may be nil; of the \<open>Content\<close> map only the keys are
  read, so it is the list of its keys (each content-type once, in no particular order).
\<close>

record Response =
  Content :: "string list"

record ResponseRef =
  Value :: "Response option"

datatype extension = RawMessage string | OtherExtension

record Operation =
  Responses :: "string \<rightharpoonup> ResponseRef"
  Extensions :: "string \<rightharpoonup> extension"

record OperationDefinition =
  OperationId :: string
  Spec :: Operation

text \<open>What \<open>json.Unmarshal\<close> stores in an \<open>interface{}\<close>.\<close>

datatype jsonval =
  JNil
  | JBool bool
  | JFloat64 string
  | JString string
  | JSlice "jsonval list"
  | JMap "(string \<times> jsonval) list"

record primaryResponseInfo =
  statusCode :: string
  contentType :: string
  metadataProperties :: "string list"

datatype error = Panic string

text \<open>
  The collaborators that template_helpers.go calls and that live in other files or
  packages: they are parameters of the model. \<open>GetResponseTypeDefinitions\<close> and
  \<open>GenerateGoSchema\<close> return a value or an error message; \<open>GenerateGoSchema\<close> reads the
  declared schema at an address of the store.
\<close>

record externals =
  GetResponseTypeDefinitions :: "OperationDefinition \<Rightarrow> string + ResponseTypeDefinition list"
  TypeDecl :: "Schema \<Rightarrow> string"
  GoTypeDef :: "Property \<Rightarrow> string"
  UppercaseFirstCharacter :: "string \<Rightarrow> string"
  json_Unmarshal :: "string \<Rightarrow> string + (string \<rightharpoonup> jsonval)"
  GenerateGoSchema :: "oapi_store \<Rightarrow> nat \<Rightarrow> string list \<Rightarrow> string + Schema"

subsection \<open>Helpers of other files\<close>

text \<open>
  Modelled from the spec: \<open>StringInArray\<close>, \<open>SortedContentKeys\<close> and \<open>SortedStringKeys\<close>
  are defined in util.go. Section 4.1 makes membership an exact, case-sensitive match
  against a fixed list; section 3 has the content-types iterated sorted by content-type
  string; section 4.5 orders each group of cases by key, ascending.
\<close>

definition StringInArray :: "string \<Rightarrow> string list \<Rightarrow> bool" where
  "StringInArray str strs = (str \<in> set strs)"

definition SortedContentKeys :: "string list \<Rightarrow> string list" where
  "SortedContentKeys content = sort content"

definition SortedStringKeys :: "(string \<times> string) list \<Rightarrow> string list" where
  "SortedStringKeys m = sort (map fst m)"

text \<open>Reading a Go map of strings: the zero value for a missing key.\<close>

definition lookupStr :: "(string \<times> string) list \<Rightarrow> string \<Rightarrow> string" where
  "lookupStr m k = (case map_of m k of None \<Rightarrow> [] | Some v \<Rightarrow> v)"

subsection \<open>getConditionOfResponseName, buildUnmarshalCase\<close>

definition getConditionOfResponseName :: "string \<Rightarrow> string \<Rightarrow> string" where
  "getConditionOfResponseName statusCodeVar responseName =
     (if responseName = ''default'' then ''true''
      else if responseName \<in> set [''1XX'', ''2XX'', ''3XX'', ''4XX'', ''5XX'']
      then statusCodeVar @ '' / 100 == '' @ take 1 responseName
      else statusCodeVar @ '' == '' @ responseName)"

definition buildUnmarshalCase ::
    "ResponseTypeDefinition \<Rightarrow> string \<Rightarrow> string \<Rightarrow> string \<times> string" where
  "buildUnmarshalCase typeDefinition caseAction codec =
     (let caseKey = prefixLeastSpecific @ ''.'' @ codec @ ''.'' @ ResponseName typeDefinition;
          caseClauseKey = getConditionOfResponseName ''rsp.StatusCode'' (ResponseName typeDefinition);
          caseClause = ''case strings.Contains(rsp.Header.Get('' @ dq @ HeaderContentType @ dq
            @ ''), '' @ dq @ codec @ dq @ '') && '' @ caseClauseKey @ '':'' @ nl
            @ caseAction @ nl
      in (caseKey, caseClause))"

subsection \<open>genResponseUnmarshal\<close>

text \<open>
  The guards of the switch over the content-type, in the source's order; \<open>codecName\<close> is
  the package name that the matching branch writes into the action and passes to
  \<open>buildUnmarshalCase\<close>.
\<close>

datatype family = JSON | YAML | XML | UNRECOGNIZED

definition classify :: "string \<Rightarrow> family" where
  "classify contentTypeName =
     (if StringInArray contentTypeName contentTypesJSON then JSON
      else if StringInArray contentTypeName contentTypesYAML then YAML
      else if StringInArray contentTypeName contentTypesXML then XML
      else UNRECOGNIZED)"

fun codecName :: "family \<Rightarrow> string" where
  "codecName JSON = ''json''"
| "codecName YAML = ''yaml''"
| "codecName XML = ''xml''"
| "codecName UNRECOGNIZED = []"

definition unmarshalAction :: "externals \<Rightarrow> ResponseTypeDefinition \<Rightarrow> string \<Rightarrow> string" where
  "unmarshalAction X typeDefinition codec =
     ''var dest '' @ TypeDecl X (Schema typeDefinition) @ nl
     @ ''if err := '' @ codec @ ''.Unmarshal(bodyBytes, &dest); err != nil { '' @ nl
     @ '' return nil, err '' @ nl
     @ ''}'' @ nl
     @ ''response.'' @ TypeName typeDefinition @ '' = &dest''"

definition unhandledKey :: "string \<Rightarrow> string" where
  "unhandledKey responseName =
     ''case '' @ getConditionOfResponseName ''rsp.StatusCode'' responseName @ '':''"

type_synonym clauses = "(string \<times> string) list \<times> (string \<times> string) list"

text \<open>The switch statement: the pair is (handledCaseClauses, unhandledCaseClauses).\<close>

definition switchContentType ::
    "externals \<Rightarrow> ResponseTypeDefinition \<Rightarrow> string \<Rightarrow> clauses \<Rightarrow> clauses" where
  "switchContentType X typeDefinition contentTypeName acc =
     (case acc of (handled, unhandled) \<Rightarrow>
       (case classify contentTypeName of
          UNRECOGNIZED \<Rightarrow>
            (let caseAction = ''// Content-type ('' @ contentTypeName @ '') unsupported'';
                 caseClauseKey = unhandledKey (ResponseName typeDefinition)
             in (handled,
                 AList.update (prefixLeastSpecific @ caseClauseKey)
                   (caseClauseKey @ nl @ caseAction @ nl) unhandled))
        | fam \<Rightarrow>
            (if ContentTypeName typeDefinition = contentTypeName
             then (case buildUnmarshalCase typeDefinition
                          (unmarshalAction X typeDefinition (codecName fam)) (codecName fam) of
                     (caseKey, caseClause) \<Rightarrow> (AList.update caseKey caseClause handled, unhandled))
             else (handled, unhandled))))"

text \<open>The body of the loop over the sorted content-types of one response.\<close>

definition contentTypeStep ::
    "externals \<Rightarrow> ResponseTypeDefinition \<Rightarrow> string \<Rightarrow> clauses \<Rightarrow> clauses" where
  "contentTypeStep X typeDefinition contentTypeName acc =
     (if TypeName typeDefinition = ''interface{}'' then acc
      else switchContentType X typeDefinition contentTypeName acc)"

text \<open>
  The body of the loop over the type definitions. The line written to standard error for
  a response with a nil value is not part of the result and is left out.
\<close>

definition typeDefinitionStep ::
    "externals \<Rightarrow> (string \<rightharpoonup> ResponseRef) \<Rightarrow> ResponseTypeDefinition \<Rightarrow> clauses \<Rightarrow> clauses" where
  "typeDefinitionStep X responses typeDefinition acc =
     (case responses (ResponseName typeDefinition) of
        None \<Rightarrow> acc
      | Some responseRef \<Rightarrow>
         (case Value responseRef of
            None \<Rightarrow> acc
          | Some rsp \<Rightarrow>
             if length (Content rsp) = 0
             then (case acc of (handled, unhandled) \<Rightarrow>
                    (let caseAction = ''break // No content-type'';
                         caseClauseKey = unhandledKey (ResponseName typeDefinition)
                     in (handled,
                         AList.update (prefixLeastSpecific @ caseClauseKey)
                           (caseClauseKey @ nl @ caseAction @ nl) unhandled)))
             else fold (contentTypeStep X typeDefinition) (SortedContentKeys (Content rsp)) acc))"

definition caseClauses ::
    "externals \<Rightarrow> (string \<rightharpoonup> ResponseRef) \<Rightarrow> ResponseTypeDefinition list \<Rightarrow> clauses" where
  "caseClauses X responses typeDefinitions =
     fold (typeDefinitionStep X responses) typeDefinitions ([], [])"

text \<open>The case clauses in the order in which the two final loops print them.\<close>

definition emitted :: "clauses \<Rightarrow> string list" where
  "emitted acc =
     (case acc of (handled, unhandled) \<Rightarrow>
        map (lookupStr handled) (SortedStringKeys handled)
        @ map (lookupStr unhandled) (SortedStringKeys unhandled))"


text \<open>The dispatch sequence of an operation: its case clauses in emission order.\<close>

definition dispatchSequence :: "externals \<Rightarrow> OperationDefinition \<Rightarrow> error + string list" where
  "dispatchSequence X op =
     (case GetResponseTypeDefinitions X op of
        Inl err \<Rightarrow> Inl (Panic err)
      | Inr typeDefinitions \<Rightarrow>
         if length typeDefinitions = 0 then Inr []
         else Inr (emitted (caseClauses X (Responses (Spec op)) typeDefinitions)))"

subsection \<open>genResponseTypeName\<close>

definition genResponseTypeName :: "externals \<Rightarrow> string \<Rightarrow> string" where
  "genResponseTypeName X operationID = UppercaseFirstCharacter X operationID @ responseTypeSuffix"

definition getResponseTypeDefinitions ::
    "externals \<Rightarrow> OperationDefinition \<Rightarrow> error + ResponseTypeDefinition list" where
  "getResponseTypeDefinitions X op =
     (case GetResponseTypeDefinitions X op of
        Inl err \<Rightarrow> Inl (Panic err)
      | Inr td \<Rightarrow> Inr td)"

subsection \<open>getPrimaryResponseInfo\<close>

text \<open>The verbs \<open>%T\<close> (the dynamic type of a decoded JSON value) and \<open>%v\<close> (of an index).\<close>

fun goTypeName :: "jsonval \<Rightarrow> string" where
  "goTypeName JNil = ''<nil>''"
| "goTypeName (JBool b) = ''bool''"
| "goTypeName (JFloat64 f) = ''float64''"
| "goTypeName (JString s) = ''string''"
| "goTypeName (JSlice vs) = ''[]interface {}''"
| "goTypeName (JMap kvs) = ''map[string]interface {}''"

fun showNat :: "nat \<Rightarrow> string" where
  "showNat n =
     (if n < 10 then [char_of (48 + n)]
      else showNat (n div 10) @ [char_of (48 + n mod 10)])"

text \<open>The type assertions \<open>tmp.(string)\<close> and \<open>tmp.([]interface{})\<close>.\<close>

fun assertString :: "jsonval \<Rightarrow> string option" where
  "assertString (JString s) = Some s"
| "assertString v = None"

fun assertSlice :: "jsonval \<Rightarrow> jsonval list option" where
  "assertSlice (JSlice vs) = Some vs"
| "assertSlice v = None"

text \<open>The loop over the elements of metadata-properties; \<open>i\<close> is the index, \<open>acc\<close> the
  slice appended to so far.\<close>

fun metadataPropertiesLoop :: "nat \<Rightarrow> jsonval list \<Rightarrow> string list \<Rightarrow> error + string list" where
  "metadataPropertiesLoop i [] acc = Inr acc"
| "metadataPropertiesLoop i (propAny # props) acc =
     (case assertString propAny of
        None \<Rightarrow> Inl (Panic (''expected string for metadata-properties element '' @ showNat i
                              @ '', got '' @ goTypeName propAny))
      | Some prop \<Rightarrow> metadataPropertiesLoop (Suc i) props (acc @ [prop]))"

text \<open>
  \<open>None\<close> is the nil result. An extension that is absent, or is not a
  \<open>json.RawMessage\<close>, fails the first type assertion and gives nil.
\<close>

definition getPrimaryResponseInfo ::
    "externals \<Rightarrow> OperationDefinition \<Rightarrow> error + primaryResponseInfo option" where
  "getPrimaryResponseInfo X op =
     (case Extensions (Spec op) ''x-primary-response'' of
        None \<Rightarrow> Inr None
      | Some OtherExtension \<Rightarrow> Inr None
      | Some (RawMessage msg) \<Rightarrow>
         (case json_Unmarshal X msg of
            Inl err \<Rightarrow> Inl (Panic err)
          | Inr m \<Rightarrow>
             (case m ''status-code'' of
                None \<Rightarrow> Inl (Panic ''no status-code key in x-primary-response'')
              | Some tmp \<Rightarrow>
                 (case assertString tmp of
                    None \<Rightarrow> Inl (Panic (''expected string for status-code in x-primary-response, got ''
                                          @ goTypeName tmp))
                  | Some sc \<Rightarrow>
                     (case m ''content-type'' of
                        None \<Rightarrow> Inl (Panic ''no content-type key in x-primary-response'')
                      | Some tmp \<Rightarrow>
                         (case assertString tmp of
                            None \<Rightarrow> Inl (Panic (''expected string for content-type in x-primary-response, got ''
                                                  @ goTypeName tmp))
                          | Some ct \<Rightarrow>
                             (case m ''metadata-properties'' of
                                None \<Rightarrow> Inr (Some \<lparr>statusCode = sc, contentType = ct,
                                                    metadataProperties = []\<rparr>)
                              | Some tmp \<Rightarrow>
                                 (case assertSlice tmp of
                                    None \<Rightarrow> Inl (Panic (''expected []interface{} for metadata-properties in x-primary-response, got ''
                                                          @ goTypeName tmp))
                                  | Some props \<Rightarrow>
                                     (case metadataPropertiesLoop 0 props [] of
                                        Inl e \<Rightarrow> Inl e
                                      | Inr mp \<Rightarrow> Inr (Some \<lparr>statusCode = sc, contentType = ct,
                                                               metadataProperties = mp\<rparr>))))))))))"

subsection \<open>getPrimaryResponseTypeDefinition\<close>

fun findPrimary :: "primaryResponseInfo \<Rightarrow> ResponseTypeDefinition list \<Rightarrow> error + ResponseTypeDefinition" where
  "findPrimary info [] = Inl (Panic ''no match found for primary response'')"
| "findPrimary info (td # tds) =
     (if ResponseName td = statusCode info \<and> ContentTypeName td = contentType info
      then Inr td
      else findPrimary info tds)"

definition getPrimaryResponseTypeDefinition ::
    "externals \<Rightarrow> OperationDefinition \<Rightarrow> error + ResponseTypeDefinition option" where
  "getPrimaryResponseTypeDefinition X op =
     (case getPrimaryResponseInfo X op of
        Inl e \<Rightarrow> Inl e
      | Inr None \<Rightarrow> Inr None
      | Inr (Some info) \<Rightarrow>
         (case getResponseTypeDefinitions X op of
            Inl e \<Rightarrow> Inl e
          | Inr tds \<Rightarrow>
             (case findPrimary info tds of
                Inl e \<Rightarrow> Inl e
              | Inr td \<Rightarrow> Inr (Some td))))"

subsection \<open>getSingleNonMetadataProperty\<close>

fun stringSliceContains :: "string list \<Rightarrow> string \<Rightarrow> bool" where
  "stringSliceContains [] needle = False"
| "stringSliceContains (element # haystack) needle =
     (if element = needle then True else stringSliceContains haystack needle)"

text \<open>
  The function returns \<open>ret\<close>, a pointer that the loop sets to \<open>&prop\<close>, the address of
  the range variable. Which variable that is depends on the language version that the
  module selects: before Go 1.22 the range clause declares one variable, reused by every
  iteration (\<open>SharedVar\<close>); from Go 1.22 on, every iteration has a variable of its own
  (\<open>FreshVar\<close>). The file predates Go 1.22 (its copyright is of 2019, and it reads
  extensions as \<open>json.RawMessage\<close>, as the early versions of kin-openapi store them), so
  \<open>SharedVar\<close> is its meaning.

  The loop is modelled over an explicit store \<open>vars\<close> of range variables: \<open>propAddr\<close> is
  the address of \<open>prop\<close> in iteration \<open>i\<close>, each iteration assigns the next element to it,
  and the result is what the callers read through the returned pointer (\<open>None\<close> for nil).
\<close>

datatype range_semantics = SharedVar | FreshVar

fun propAddr :: "range_semantics \<Rightarrow> nat \<Rightarrow> nat" where
  "propAddr SharedVar i = 0"
| "propAddr FreshVar i = i"

fun singleNonMetadataLoop ::
    "range_semantics \<Rightarrow> string list \<Rightarrow> Property list \<Rightarrow> nat \<Rightarrow> (nat \<rightharpoonup> Property)
      \<Rightarrow> nat option \<Rightarrow> Property option" where
  "singleNonMetadataLoop sem meta [] i vars ret =
     (case ret of None \<Rightarrow> None | Some a \<Rightarrow> vars a)"
| "singleNonMetadataLoop sem meta (p # ps) i vars ret =
     (let a = propAddr sem i;
          vars' = vars(a \<mapsto> p)
      in if \<not> stringSliceContains meta (JsonFieldName p)
         then (case ret of
                 Some r \<Rightarrow> None
               | None \<Rightarrow> singleNonMetadataLoop sem meta ps (Suc i) vars' (Some a))
         else singleNonMetadataLoop sem meta ps (Suc i) vars' ret)"

definition getSingleNonMetadataProperty ::
    "range_semantics \<Rightarrow> ('a TypeDefinition_scheme) \<Rightarrow> primaryResponseInfo \<Rightarrow> Property option" where
  "getSingleNonMetadataProperty sem td info =
     singleNonMetadataLoop sem (metadataProperties info) (Properties (Schema td)) 0 Map.empty None"

definition isFlatTypeDefinition :: "('a TypeDefinition_scheme) \<Rightarrow> bool" where
  "isFlatTypeDefinition td = (length (Properties (Schema td)) = 0)"

subsection \<open>asReducedTypeDefinition\<close>

text \<open>
  The loop that purges the properties marked as metadata ranges over the map it deletes
  from; \<open>keys\<close> is the order in which the range visits the keys (Go leaves it open;
  deleting the current key does not disturb the iteration).
\<close>

fun purgeLoop :: "string list \<Rightarrow> string list \<Rightarrow> (string \<times> nat) list \<Rightarrow> (string \<times> nat) list" where
  "purgeLoop meta [] props = props"
| "purgeLoop meta (propName # keys) props =
     purgeLoop meta keys
       (if stringSliceContains meta propName then AList.delete propName props else props)"

text \<open>
  \<open>td\<close> is passed by value, but \<open>td.Schema.OAPISchema\<close> is a pointer: \<open>osc\<close> is the
  declared schema itself, and \<open>delete(osc.Properties, propName)\<close> writes to the store.
  The result is the returned type definition (or the panic) and the store after the call.
\<close>

definition asReducedTypeDefinition ::
    "externals \<Rightarrow> range_semantics \<Rightarrow> ResponseTypeDefinition \<Rightarrow> primaryResponseInfo \<Rightarrow> oapi_store
      \<Rightarrow> (error + TypeDefinition) \<times> oapi_store" where
  "asReducedTypeDefinition X sem td info store =
     (case getSingleNonMetadataProperty sem td info of
        Some prop \<Rightarrow>
          (Inr \<lparr>TypeName = JsonFieldName prop, JsonName = JsonFieldName prop,
                Schema = PropSchema prop\<rparr>, store)
      | None \<Rightarrow>
         (case OAPISchema (Schema td) of
            None \<Rightarrow> (Inl (Panic ''invalid memory address or nil pointer dereference''), store)
          | Some osc \<Rightarrow>
             (let props = oapiProperties (store osc);
                  store' = store(osc := (store osc)\<lparr>oapiProperties :=
                                   purgeLoop (metadataProperties info) (map fst props) props\<rparr>)
              in case GenerateGoSchema X store' osc (Path (Schema td)) of
                   Inl err \<Rightarrow> (Inl (Panic err), store')
                 | Inr sc \<Rightarrow>
                     (Inr \<lparr>TypeName = TypeName td, JsonName = JsonName td, Schema = sc\<rparr>,
                      store'))))"

definition isFlatTypeDefinitionAfterReduction ::
    "externals \<Rightarrow> range_semantics \<Rightarrow> ResponseTypeDefinition \<Rightarrow> primaryResponseInfo \<Rightarrow> oapi_store
      \<Rightarrow> (error + bool) \<times> oapi_store" where
  "isFlatTypeDefinitionAfterReduction X sem td info store =
     (case asReducedTypeDefinition X sem td info store of
        (Inl e, store') \<Rightarrow> (Inl e, store')
      | (Inr rtd, store') \<Rightarrow> (Inr (isFlatTypeDefinition rtd), store'))"

subsection \<open>genReturnTypeName\<close>

definition genReturnTypeName ::
    "externals \<Rightarrow> range_semantics \<Rightarrow> OperationDefinition \<Rightarrow> error + string" where
  "genReturnTypeName X sem op =
     (let defaultName = ''*'' @ UppercaseFirstCharacter X (genResponseTypeName X (OperationId op))
      in case getPrimaryResponseTypeDefinition X op of
           Inl e \<Rightarrow> Inl e
         | Inr None \<Rightarrow> Inr defaultName
         | Inr (Some td) \<Rightarrow>
            (case getPrimaryResponseInfo X op of
               Inl e \<Rightarrow> Inl e
             | Inr None \<Rightarrow> Inl (Panic ''invalid memory address or nil pointer dereference'')
             | Inr (Some info) \<Rightarrow>
                (case getSingleNonMetadataProperty sem td info of
                   None \<Rightarrow> Inr defaultName
                 | Some prop \<Rightarrow> Inr (GoTypeDef X prop))))"

subsection \<open>Reading the generated text and the panic messages\<close>

text \<open>The first line of a case clause is its condition.\<close>

definition firstLine :: "string \<Rightarrow> string" where
  "firstLine s = takeWhile (\<lambda>c. c \<noteq> CHR 0x0A) s"


text \<open>The map key and the two stub clauses of the unhandled group, for a response name.\<close>

definition stubKey :: "string \<Rightarrow> string" where
  "stubKey responseName = prefixLeastSpecific @ unhandledKey responseName"

definition unsupportedStub :: "string \<Rightarrow> string \<Rightarrow> string" where
  "unsupportedStub responseName contentTypeName =
     unhandledKey responseName @ nl
     @ ''// Content-type ('' @ contentTypeName @ '') unsupported'' @ nl"

definition noContentStub :: "string \<Rightarrow> string" where
  "noContentStub responseName = unhandledKey responseName @ nl @ ''break // No content-type'' @ nl"

subsection \<open>Sample operations\<close>

text \<open>
  Concrete collaborators and operations, on which the theorems below are evaluated. The
  sample collaborators return fixed type definitions and a fixed decoded directive, take
  the Go type of a schema as its declaration, capitalise an ASCII letter, and regenerate
  an object schema with one property per declared property.
\<close>

definition sampleUppercaseFirst :: "string \<Rightarrow> string" where
  "sampleUppercaseFirst str =
     (case str of
        [] \<Rightarrow> []
      | c # cs \<Rightarrow>
         (if CHR ''a'' \<le> c \<and> c \<le> CHR ''z'' then char_of (of_char c - (32::nat)) else c) # cs)"

definition sampleGenerateGoSchema :: "oapi_store \<Rightarrow> nat \<Rightarrow> string list \<Rightarrow> string + Schema" where
  "sampleGenerateGoSchema store a path =
     Inr (GoSchema
            (map (\<lambda>(name, b). GoProperty name (GoSchema [] (Some b) (path @ [name]) ''interface{}''))
               (oapiProperties (store a)))
            (Some a) path ''struct'')"

definition sampleExternals ::
    "ResponseTypeDefinition list \<Rightarrow> (string \<times> jsonval) list \<Rightarrow> externals" where
  "sampleExternals tds directive =
     \<lparr>GetResponseTypeDefinitions = (\<lambda>op. Inr tds),
      TypeDecl = GoType,
      GoTypeDef = (\<lambda>p. GoType (PropSchema p)),
      UppercaseFirstCharacter = sampleUppercaseFirst,
      json_Unmarshal = (\<lambda>msg. Inr (map_of directive)),
      GenerateGoSchema = sampleGenerateGoSchema\<rparr>"

definition sampleOperation ::
    "(string \<times> string list) list \<Rightarrow> (string \<rightharpoonup> extension) \<Rightarrow> OperationDefinition" where
  "sampleOperation declared ext =
     \<lparr>OperationId = ''getPet'',
      Spec = \<lparr>Responses = map_of (map (\<lambda>(responseName, contentTypes).
                                 (responseName, \<lparr>Value = Some \<lparr>Content = contentTypes\<rparr>\<rparr>)) declared),
               Extensions = ext\<rparr>\<rparr>"

definition sampleType :: "string \<Rightarrow> string \<Rightarrow> string \<Rightarrow> Schema \<Rightarrow> ResponseTypeDefinition" where
  "sampleType responseName contentTypeName typeName schema =
     \<lparr>TypeName = typeName, JsonName = [], Schema = schema,
      ContentTypeName = contentTypeName, ResponseName = responseName\<rparr>"

definition namedSchema :: "string \<Rightarrow> Schema" where
  "namedSchema goType = GoSchema [] None [] goType"

text \<open>An operation with the JSON responses 2XX and 404.\<close>

definition wildcardExactTypes :: "ResponseTypeDefinition list" where
  "wildcardExactTypes =
     [sampleType ''2XX'' ''application/json'' ''JSON2XX'' (namedSchema ''Pet''),
      sampleType ''404'' ''application/json'' ''JSON404'' (namedSchema ''Error'')]"

definition wildcardExactOperation :: OperationDefinition where
  "wildcardExactOperation =
     sampleOperation [(''2XX'', [''application/json'']), (''404'', [''application/json''])] Map.empty"

text \<open>
  An operation that declares the responses 200 and default and whose directive names
  status code 404.
\<close>

definition directiveText :: string where
  "directiveText = ''{'' @ dq @ ''status-code'' @ dq @ '': '' @ dq @ ''404'' @ dq @ '', ''
     @ dq @ ''content-type'' @ dq @ '': '' @ dq @ ''application/json'' @ dq @ ''}''"

definition missingMatchTypes :: "ResponseTypeDefinition list" where
  "missingMatchTypes =
     [sampleType ''200'' ''application/json'' ''JSON200'' (namedSchema ''Pet''),
      sampleType ''default'' ''application/json'' ''JSONDefault'' (namedSchema ''Error'')]"

definition missingMatchDirective :: "(string \<times> jsonval) list" where
  "missingMatchDirective =
     [(''status-code'', JString ''404''), (''content-type'', JString ''application/json'')]"

definition missingMatchOperation :: OperationDefinition where
  "missingMatchOperation =
     sampleOperation [(''200'', [''application/json'']), (''default'', [''application/json''])]
       [''x-primary-response'' \<mapsto> RawMessage directiveText]"

text \<open>
  An operation whose primary response 200 has the properties data and status, with
  status marked as metadata.
\<close>

definition dataProperty :: Property where
  "dataProperty = GoProperty ''data'' (GoSchema [] None [''data''] ''[]Pet'')"

definition statusProperty :: Property where
  "statusProperty = GoProperty ''status'' (GoSchema [] None [''status''] ''string'')"

definition envelopeTypes :: "ResponseTypeDefinition list" where
  "envelopeTypes =
     [sampleType ''200'' ''application/json'' ''JSON200''
        (GoSchema [dataProperty, statusProperty] None [] ''struct'')]"

definition envelopeDirective :: "(string \<times> jsonval) list" where
  "envelopeDirective =
     [(''status-code'', JString ''200''), (''content-type'', JString ''application/json''),
      (''metadata-properties'', JSlice [JString ''status''])]"

definition envelopeOperation :: OperationDefinition where
  "envelopeOperation =
     sampleOperation [(''200'', [''application/json''])]
       [''x-primary-response'' \<mapsto> RawMessage ''{...}'']"

text \<open>
  A primary response whose declared schema, at address 0 of the store, has the properties
  a, b and meta, with meta marked as metadata.
\<close>

definition pagedStore :: oapi_store where
  "pagedStore = (\<lambda>a. \<lparr>oapiProperties = []\<rparr>)
     (0 := \<lparr>oapiProperties = [(''a'', 1), (''b'', 2), (''meta'', 3)]\<rparr>)"

definition pagedType :: ResponseTypeDefinition where
  "pagedType =
     sampleType ''200'' ''application/json'' ''JSON200''
       (GoSchema [GoProperty ''a'' (namedSchema ''int''), GoProperty ''b'' (namedSchema ''int''),
                  GoProperty ''meta'' (namedSchema ''Meta'')] (Some 0) [] ''struct'')"

definition pagedInfo :: primaryResponseInfo where
  "pagedInfo = \<lparr>statusCode = ''200'', contentType = ''application/json'',
                 metadataProperties = [''meta'']\<rparr>"

text \<open>A response 200 that declares JSON and two content-types outside the three families.\<close>

definition csvTypes :: "ResponseTypeDefinition list" where
  "csvTypes = [sampleType ''200'' ''application/json'' ''JSON200'' (namedSchema ''Pet'')]"

definition csvResponses :: "string \<rightharpoonup> ResponseRef" where
  "csvResponses =
     [''200'' \<mapsto> \<lparr>Value = Some \<lparr>Content = [''text/plain'', ''application/json'', ''text/csv'']\<rparr>\<rparr>]"


text \<open>A response 204 without content, and a type definition that names it.\<close>

definition noContentTypes :: "ResponseTypeDefinition list" where
  "noContentTypes = [sampleType ''204'' [] ''Empty'' (namedSchema ''struct{}'')]"

definition noContentResponses :: "string \<rightharpoonup> ResponseRef" where
  "noContentResponses = [''204'' \<mapsto> \<lparr>Value = Some \<lparr>Content = []\<rparr>\<rparr>]"

subsection \<open>The stub that one type definition leaves in the unhandled group\<close>

text \<open>
  Used to reason about the loop over the type definitions: \<open>stubOf\<close> is the value that
  the loop body stores under the stub key of the response name, if it stores one.
\<close>

definition stubOf :: "(string \<rightharpoonup> ResponseRef) \<Rightarrow> ResponseTypeDefinition \<Rightarrow> string option" where
  "stubOf responses td =
     (case responses (ResponseName td) of
        None \<Rightarrow> None
      | Some responseRef \<Rightarrow>
         (case Value responseRef of
            None \<Rightarrow> None
          | Some rsp \<Rightarrow>
             if Content rsp = [] then Some (noContentStub (ResponseName td))
             else if TypeName td = ''interface{}'' then None
             else (case filter (\<lambda>ct. classify ct = UNRECOGNIZED) (SortedContentKeys (Content rsp)) of
                     [] \<Rightarrow> None
                   | us \<Rightarrow> Some (unsupportedStub (ResponseName td) (last us)))))"

section \<open>Properties\<close>

subsection \<open>Status conditions\<close>

text \<open>
  C8. For every pattern and status variable, \<open>getConditionOfResponseName\<close> returns the
  condition \<open>true\<close> for the pattern \<open>default\<close>, the condition \<open>statusVar / 100 == d\<close> for a
  pattern \<open>dXX\<close> with \<open>d\<close> one of 1 to 5, and the condition \<open>statusVar == pattern\<close> for
  every other pattern.
\<close>

theorem condition_of_response_name:
  "getConditionOfResponseName statusVar ''default'' = ''true''
   \<and> (d \<in> set ''12345'' \<longrightarrow>
        getConditionOfResponseName statusVar (d # ''XX'') = statusVar @ '' / 100 == '' @ [d])
   \<and> (pattern \<noteq> ''default'' \<and> (\<forall>d \<in> set ''12345''. pattern \<noteq> d # ''XX'') \<longrightarrow>
        getConditionOfResponseName statusVar pattern = statusVar @ '' == '' @ pattern)"
  by (auto simp: getConditionOfResponseName_def)

theorem condition_of_response_name_witness:
  "getConditionOfResponseName ''rsp.StatusCode'' ''default'' = ''true''
   \<and> getConditionOfResponseName ''rsp.StatusCode'' ''4XX'' = ''rsp.StatusCode / 100 == 4''
   \<and> getConditionOfResponseName ''rsp.StatusCode'' ''404'' = ''rsp.StatusCode == 404''"
  using condition_of_response_name [of "''rsp.StatusCode''" "CHR ''4''" "''404''"]
  by simp

subsection \<open>Content-type families\<close>





lemma switch_unrecognized:
  "classify ct = UNRECOGNIZED \<Longrightarrow>
     switchContentType X td ct (handled, unhandled)
       = (handled, AList.update (stubKey (ResponseName td))
                     (unsupportedStub (ResponseName td) ct) unhandled)"
  by (simp add: switchContentType_def stubKey_def unsupportedStub_def Let_def)




subsection \<open>The primary-response directive\<close>

lemma findPrimary_no_match:
  "\<forall>td \<in> set tds. \<not> (ResponseName td = statusCode info \<and> ContentTypeName td = contentType info)
   \<Longrightarrow> findPrimary info tds = Inl (Panic ''no match found for primary response'')"
  by (induction tds) auto


lemma sample_missing_info:
  "getPrimaryResponseInfo (sampleExternals missingMatchTypes missingMatchDirective)
       missingMatchOperation
     = Inr (Some \<lparr>statusCode = ''404'', contentType = ''application/json'',
                   metadataProperties = []\<rparr>)"
  by (simp add: getPrimaryResponseInfo_def sampleExternals_def missingMatchOperation_def
      sampleOperation_def missingMatchDirective_def)

text \<open>
  C5. For every operation whose directive is read as a pair (statusCode, contentType)
  that matches none of the operation's response type definitions,
  \<open>getPrimaryResponseTypeDefinition\<close> panics: it neither returns nil nor a type
  definition.
\<close>

theorem missing_match_is_fatal:
  assumes "getPrimaryResponseInfo X op = Inr (Some info)"
    and "GetResponseTypeDefinitions X op = Inr tds"
    and "\<forall>td \<in> set tds.
           \<not> (ResponseName td = statusCode info \<and> ContentTypeName td = contentType info)"
  shows "getPrimaryResponseTypeDefinition X op = Inl (Panic ''no match found for primary response'')"
  using assms findPrimary_no_match [of tds info]
  by (simp add: getPrimaryResponseTypeDefinition_def getResponseTypeDefinitions_def)

theorem missing_match_is_fatal_witness:
  "getPrimaryResponseInfo (sampleExternals missingMatchTypes missingMatchDirective)
       missingMatchOperation
     = Inr (Some \<lparr>statusCode = ''404'', contentType = ''application/json'',
                   metadataProperties = []\<rparr>)
   \<and> getPrimaryResponseTypeDefinition (sampleExternals missingMatchTypes missingMatchDirective)
       missingMatchOperation
     = Inl (Panic ''no match found for primary response'')"
proof -
  let ?X = "sampleExternals missingMatchTypes missingMatchDirective"
  let ?info = "\<lparr>statusCode = ''404'', contentType = ''application/json'',
                 metadataProperties = []\<rparr>"
  have tds: "GetResponseTypeDefinitions ?X missingMatchOperation = Inr missingMatchTypes"
    by (simp add: sampleExternals_def)
  have none: "\<forall>td \<in> set missingMatchTypes.
       \<not> (ResponseName td = statusCode ?info \<and> ContentTypeName td = contentType ?info)"
    by (simp add: missingMatchTypes_def sampleType_def)
  show ?thesis
    using missing_match_is_fatal [OF sample_missing_info tds none] sample_missing_info
    by simp
qed

text \<open>
  C6. For every operation without the extension x-primary-response,
  \<open>getPrimaryResponseInfo\<close> returns nil and no error, and \<open>genReturnTypeName\<close> returns the
  default name: a star followed by the capitalised response type name of the operation.
\<close>

theorem absent_directive_default:
  assumes "Extensions (Spec op) ''x-primary-response'' = None"
  shows "getPrimaryResponseInfo X op = Inr None
         \<and> genReturnTypeName X sem op
             = Inr (''*'' @ UppercaseFirstCharacter X (genResponseTypeName X (OperationId op)))"
  using assms
  by (simp add: getPrimaryResponseInfo_def getPrimaryResponseTypeDefinition_def
      genReturnTypeName_def)

theorem absent_directive_default_witness:
  "Extensions (Spec wildcardExactOperation) ''x-primary-response'' = None
   \<and> getPrimaryResponseInfo (sampleExternals wildcardExactTypes []) wildcardExactOperation = Inr None
   \<and> genReturnTypeName (sampleExternals wildcardExactTypes []) SharedVar wildcardExactOperation
       = Inr ''*GetPetResponse''"
proof -
  have a: "Extensions (Spec wildcardExactOperation) ''x-primary-response'' = None"
    by (simp add: wildcardExactOperation_def sampleOperation_def)
  have b: "''*'' @ UppercaseFirstCharacter (sampleExternals wildcardExactTypes [])
             (genResponseTypeName (sampleExternals wildcardExactTypes [])
                (OperationId wildcardExactOperation)) = ''*GetPetResponse''"
    by code_simp
  show ?thesis
    using absent_directive_default [OF a, of "sampleExternals wildcardExactTypes []" SharedVar] a b
    by simp
qed









subsection \<open>Order of the case clauses\<close>

lemma buildUnmarshalCase_key:
  "fst (buildUnmarshalCase td caseAction codec)
     = prefixLeastSpecific @ ''.'' @ codec @ ''.'' @ ResponseName td"
  by (simp add: buildUnmarshalCase_def Let_def)

text \<open>
  C1. The dispatch sequence should list every exact status code before every status
  class. On the operation with the JSON responses 2XX and 404 it does not: in whichever
  order the two type definitions are given, the case for the class 2XX is emitted first
  and the case for the exact code 404 second. The keys of both carry the same prefix
  (\<open>buildUnmarshalCase_key\<close>), so their order is that of the response names.
\<close>

theorem wildcard_case_precedes_exact_case:
  "map_sum id (map firstLine)
     (dispatchSequence (sampleExternals wildcardExactTypes []) wildcardExactOperation)
   = Inr [''case strings.Contains(rsp.Header.Get('' @ dq @ ''Content-Type'' @ dq @ ''), '' @ dq
            @ ''json'' @ dq @ '') && rsp.StatusCode / 100 == 2:'',
          ''case strings.Contains(rsp.Header.Get('' @ dq @ ''Content-Type'' @ dq @ ''), '' @ dq
            @ ''json'' @ dq @ '') && rsp.StatusCode == 404:'']
   \<and> dispatchSequence (sampleExternals (rev wildcardExactTypes) []) wildcardExactOperation
     = dispatchSequence (sampleExternals wildcardExactTypes []) wildcardExactOperation"
  by code_simp

subsection \<open>Flattening and reduction\<close>

lemma stringSliceContains_iff: "stringSliceContains haystack needle \<longleftrightarrow> needle \<in> set haystack"
  by (induction haystack) auto

lemma purgeLoop_filter:
  "purgeLoop meta keys props
     = filter (\<lambda>kv. \<not> (fst kv \<in> set keys \<and> fst kv \<in> set meta)) props"
proof (induction keys arbitrary: props)
  case Nil
  then show ?case by simp
next
  case (Cons k keys)
  show ?case
    by (auto simp: Cons.IH stringSliceContains_iff AList.delete_eq intro!: filter_cong)
qed

lemma purgeLoop_all_keys:
  "purgeLoop meta (map fst props) props = filter (\<lambda>kv. fst kv \<notin> set meta) props"
  by (auto simp: purgeLoop_filter intro!: filter_cong)

lemma purgeLoop_twice:
  "purgeLoop meta (map fst (purgeLoop meta (map fst props) props))
     (purgeLoop meta (map fst props) props) = purgeLoop meta (map fst props) props"
  by (simp add: purgeLoop_all_keys)

lemma shared_loop:
  "singleNonMetadataLoop SharedVar meta ps i vars ret =
     (case ret of
        None \<Rightarrow> (case filter (\<lambda>p. JsonFieldName p \<notin> set meta) ps of
                   [q] \<Rightarrow> Some (last ps) | _ \<Rightarrow> None)
      | Some a \<Rightarrow> (if filter (\<lambda>p. JsonFieldName p \<notin> set meta) ps = []
                   then (if ps = [] then vars a else if a = 0 then Some (last ps) else vars a)
                   else None))"
proof (induction ps arbitrary: i vars ret)
  case Nil
  then show ?case by (simp split: option.splits)
next
  case (Cons p ps)
  show ?case
    by (auto simp: Cons.IH stringSliceContains_iff Let_def split: option.splits list.splits)
qed


lemma fresh_loop:
  "(\<forall>a. ret = Some a \<longrightarrow> a < i) \<Longrightarrow>
   singleNonMetadataLoop FreshVar meta ps i vars ret =
     (case ret of
        None \<Rightarrow> (case filter (\<lambda>p. JsonFieldName p \<notin> set meta) ps of
                   [q] \<Rightarrow> Some q | _ \<Rightarrow> None)
      | Some a \<Rightarrow> (if filter (\<lambda>p. JsonFieldName p \<notin> set meta) ps = [] then vars a else None))"
proof (induction ps arbitrary: i vars ret)
  case Nil
  then show ?case by (simp split: option.splits)
next
  case (Cons p ps)
  show ?case
  proof (cases ret)
    case None
    then show ?thesis
      by (simp add: Cons.IH stringSliceContains_iff Let_def split: list.splits)
  next
    case (Some a)
    with Cons.prems have "a < i" by simp
    with Some show ?thesis
      by (simp add: Cons.IH stringSliceContains_iff Let_def)
  qed
qed

lemma getSingleNonMetadataProperty_SharedVar:
  "getSingleNonMetadataProperty SharedVar td info =
     (case filter (\<lambda>p. JsonFieldName p \<notin> set (metadataProperties info)) (Properties (Schema td)) of
        [q] \<Rightarrow> Some (last (Properties (Schema td)))
      | _ \<Rightarrow> None)"
  by (simp add: getSingleNonMetadataProperty_def shared_loop)

lemma getSingleNonMetadataProperty_FreshVar:
  "getSingleNonMetadataProperty FreshVar td info =
     (case filter (\<lambda>p. JsonFieldName p \<notin> set (metadataProperties info)) (Properties (Schema td)) of
        [q] \<Rightarrow> Some q
      | _ \<Rightarrow> None)"
  by (simp add: getSingleNonMetadataProperty_def fresh_loop)

lemma getSingleNonMetadataProperty_nil:
  "getSingleNonMetadataProperty sem td info = None \<longleftrightarrow>
     length (filter (\<lambda>p. JsonFieldName p \<notin> set (metadataProperties info))
               (Properties (Schema td))) \<noteq> 1"
  by (cases sem)
    (auto simp: getSingleNonMetadataProperty_SharedVar getSingleNonMetadataProperty_FreshVar
      split: list.splits)

lemma genReturnTypeName_not_flattenable:
  assumes "getPrimaryResponseTypeDefinition X op = Inr (Some td)"
    and "length (filter (\<lambda>p. JsonFieldName p \<notin> set (metadataProperties info))
               (Properties (Schema td))) \<noteq> 1"
    and "getPrimaryResponseInfo X op = Inr (Some info)"
  shows "genReturnTypeName X sem op
     = Inr (''*'' @ UppercaseFirstCharacter X (genResponseTypeName X (OperationId op)))"
  using assms getSingleNonMetadataProperty_nil [of sem td info]
  by (simp add: genReturnTypeName_def)

lemma genReturnTypeName_FreshVar_flattened:
  assumes "getPrimaryResponseTypeDefinition X op = Inr (Some td)"
    and "filter (\<lambda>p. JsonFieldName p \<notin> set (metadataProperties info))
               (Properties (Schema td)) = [q]"
    and "getPrimaryResponseInfo X op = Inr (Some info)"
  shows "genReturnTypeName X FreshVar op = Inr (GoTypeDef X q)"
  using assms
  by (simp add: genReturnTypeName_def getSingleNonMetadataProperty_FreshVar)

lemma genReturnTypeName_SharedVar_flattened:
  assumes "getPrimaryResponseTypeDefinition X op = Inr (Some td)"
    and "filter (\<lambda>p. JsonFieldName p \<notin> set (metadataProperties info))
               (Properties (Schema td)) = [q]"
    and "getPrimaryResponseInfo X op = Inr (Some info)"
  shows "genReturnTypeName X SharedVar op = Inr (GoTypeDef X (last (Properties (Schema td))))"
  using assms
  by (simp add: genReturnTypeName_def getSingleNonMetadataProperty_SharedVar)

lemma reduce_store:
  "getSingleNonMetadataProperty sem td info = None \<Longrightarrow> OAPISchema (Schema td) = Some osc \<Longrightarrow>
   snd (asReducedTypeDefinition X sem td info store)
     = store(osc := (store osc)\<lparr>oapiProperties :=
          filter (\<lambda>kv. fst kv \<notin> set (metadataProperties info)) (oapiProperties (store osc))\<rparr>)"
  by (simp add: asReducedTypeDefinition_def Let_def purgeLoop_all_keys split: sum.splits)


text \<open>
  C2. With exactly one property outside the metadata properties, the return type should
  be that property's own type. For the primary response with the properties data (of type
  []Pet) and status (of type string), and status marked as metadata, data is the single
  property outside the metadata, yet \<open>genReturnTypeName\<close> returns string: the returned
  pointer is the address of the range variable, which holds the last property by the
  time the loop ends (\<open>genReturnTypeName_SharedVar_flattened\<close>). With a variable per
  iteration the result is the single property (\<open>genReturnTypeName_FreshVar_flattened\<close>);
  with zero or several properties outside the metadata the default name is returned
  either way (\<open>genReturnTypeName_not_flattenable\<close>).
\<close>

theorem flattened_type_is_last_property:
  "filter (\<lambda>p. JsonFieldName p \<notin> set [''status'']) [dataProperty, statusProperty] = [dataProperty]
   \<and> GoTypeDef (sampleExternals envelopeTypes envelopeDirective) dataProperty = ''[]Pet''
   \<and> genReturnTypeName (sampleExternals envelopeTypes envelopeDirective) SharedVar
        envelopeOperation = Inr ''string''"
  by code_simp

text \<open>
  C3. \<open>asReducedTypeDefinition\<close> should leave the declared schema as it was. For the
  primary response whose declared schema has the properties a, b and meta, with meta
  marked as metadata, the schema in the store has lost meta after the call.
\<close>

theorem reduction_purges_declared_schema:
  "oapiProperties (pagedStore 0) = [(''a'', 1), (''b'', 2), (''meta'', 3)]
   \<and> oapiProperties (snd (asReducedTypeDefinition X sem pagedType pagedInfo pagedStore) 0)
       = [(''a'', 1), (''b'', 2)]"
proof -
  have nil: "getSingleNonMetadataProperty sem pagedType pagedInfo = None"
    by (simp add: getSingleNonMetadataProperty_nil pagedType_def pagedInfo_def sampleType_def)
  have osc: "OAPISchema (Schema pagedType) = Some 0"
    by (simp add: pagedType_def sampleType_def)
  show ?thesis
    using reduce_store [OF nil osc, of X pagedStore]
    by (simp add: pagedStore_def pagedInfo_def)
qed


subsection \<open>The unhandled group\<close>

lemma switch_recognized_snd:
  "classify ct \<noteq> UNRECOGNIZED \<Longrightarrow> snd (switchContentType X td ct (h, u)) = u"
  by (cases "classify ct") (simp_all add: switchContentType_def split: prod.splits)

lemma content_fold_snd:
  "TypeName td \<noteq> ''interface{}'' \<Longrightarrow>
   snd (fold (contentTypeStep X td) cts (h, u)) =
     (case filter (\<lambda>ct. classify ct = UNRECOGNIZED) cts of
        [] \<Rightarrow> u
      | us \<Rightarrow> AList.update (stubKey (ResponseName td)) (unsupportedStub (ResponseName td) (last us)) u)"
proof (induction cts arbitrary: h u)
  case Nil
  then show ?case by simp
next
  case (Cons c cts)
  show ?case
  proof (cases "classify c = UNRECOGNIZED")
    case True
    then have step: "contentTypeStep X td c (h, u)
        = (h, AList.update (stubKey (ResponseName td)) (unsupportedStub (ResponseName td) c) u)"
      using Cons.prems by (simp add: contentTypeStep_def switch_unrecognized)
    show ?thesis
      using True Cons.prems
      by (simp add: step Cons.IH AList.update_last split: list.splits)
  next
    case False
    obtain h' where step: "contentTypeStep X td c (h, u) = (h', u)"
      using switch_recognized_snd [OF False, of X td h u] Cons.prems
      by (cases "switchContentType X td c (h, u)") (simp add: contentTypeStep_def)
    show ?thesis
      using False Cons.prems by (simp add: step Cons.IH)
  qed
qed

lemma content_fold_skip:
  "TypeName td = ''interface{}'' \<Longrightarrow> fold (contentTypeStep X td) cts acc = acc"
  by (induction cts) (simp_all add: contentTypeStep_def)

lemma typeDefinitionStep_snd:
  "snd (typeDefinitionStep X responses td (h, u)) =
     (case stubOf responses td of
        None \<Rightarrow> u
      | Some v \<Rightarrow> AList.update (stubKey (ResponseName td)) v u)"
proof (cases "TypeName td = ''interface{}''")
  case True
  then show ?thesis
    by (simp add: typeDefinitionStep_def stubOf_def content_fold_skip stubKey_def noContentStub_def
        Let_def split: option.splits)
next
  case False
  then show ?thesis
    by (simp add: typeDefinitionStep_def stubOf_def content_fold_snd stubKey_def noContentStub_def
        Let_def split: option.splits list.splits)
qed

lemma condition_cases:
  "getConditionOfResponseName ''rsp.StatusCode'' rn = ''true'' \<and> rn = ''default''
   \<or> (\<exists>d. getConditionOfResponseName ''rsp.StatusCode'' rn = ''rsp.StatusCode / 100 == '' @ [d]
          \<and> rn = d # ''XX'')
   \<or> getConditionOfResponseName ''rsp.StatusCode'' rn = ''rsp.StatusCode == '' @ rn
       \<and> rn \<noteq> ''default''"
  unfolding getConditionOfResponseName_def by auto

lemma condition_inj:
  assumes "getConditionOfResponseName ''rsp.StatusCode'' rn
             = getConditionOfResponseName ''rsp.StatusCode'' rn'"
  shows "rn = rn'"
  using condition_cases [of rn] condition_cases [of rn'] assms
  by (elim disjE exE conjE) simp_all

lemma stubKey_inj: "stubKey rn = stubKey rn' \<Longrightarrow> rn = rn'"
  using condition_inj [of rn rn'] by (simp add: stubKey_def unhandledKey_def)


lemma stubOf_consistent:
  "ResponseName t = ResponseName td \<Longrightarrow> stubOf responses t = Some w \<Longrightarrow>
   stubOf responses td = Some v \<Longrightarrow> w = v"
  by (auto simp: stubOf_def split: option.splits if_splits list.splits)

lemma typeDefinitions_fold_distinct:
  "distinct (map fst (snd acc)) \<Longrightarrow>
   distinct (map fst (snd (fold (typeDefinitionStep X responses) tds acc)))"
proof (induction tds arbitrary: acc)
  case Nil
  then show ?case by simp
next
  case (Cons t ts)
  obtain h u where acc: "acc = (h, u)" by (cases acc)
  have "distinct (map fst (snd (typeDefinitionStep X responses t acc)))"
    using Cons.prems
    by (simp add: acc typeDefinitionStep_snd distinct_update split: option.splits)
  then show ?case by (simp add: Cons.IH)
qed

lemma typeDefinitions_fold_keys:
  "k \<in> set (map fst (snd (fold (typeDefinitionStep X responses) tds acc))) \<Longrightarrow>
   k \<in> set (map fst (snd acc)) \<or> (\<exists>td \<in> set tds. k = stubKey (ResponseName td))"
proof (induction tds arbitrary: acc)
  case Nil
  then show ?case by simp
next
  case (Cons t ts)
  obtain h u where acc: "acc = (h, u)" by (cases acc)
  from Cons.prems have "k \<in> set (map fst (snd (typeDefinitionStep X responses t acc)))
      \<or> (\<exists>td \<in> set ts. k = stubKey (ResponseName td))"
    using Cons.IH [of "typeDefinitionStep X responses t acc"] by simp
  moreover have "k \<in> set (map fst (snd (typeDefinitionStep X responses t acc))) \<Longrightarrow>
      k \<in> set (map fst (snd acc)) \<or> k = stubKey (ResponseName t)"
    by (auto simp: acc typeDefinitionStep_snd dom_update split: option.splits)
  ultimately show ?case by auto
qed

lemma typeDefinitions_fold_value:
  "td \<in> set tds \<or> map_of (snd acc) (stubKey (ResponseName td)) = Some v \<Longrightarrow>
   stubOf responses td = Some v \<Longrightarrow>
   map_of (snd (fold (typeDefinitionStep X responses) tds acc)) (stubKey (ResponseName td)) = Some v"
proof (induction tds arbitrary: acc)
  case Nil
  then show ?case by simp
next
  case (Cons t ts)
  obtain h u where acc: "acc = (h, u)" by (cases acc)
  let ?acc' = "typeDefinitionStep X responses t acc"
  have "td \<in> set ts \<or> map_of (snd ?acc') (stubKey (ResponseName td)) = Some v"
  proof (cases "td \<in> set ts")
    case True
    then show ?thesis by simp
  next
    case False
    with Cons.prems(1) have now: "td = t \<or> map_of u (stubKey (ResponseName td)) = Some v"
      by (auto simp: acc)
    show ?thesis
    proof (cases "stubOf responses t")
      case None
      with now Cons.prems(2) show ?thesis
        by (auto simp: acc typeDefinitionStep_snd)
    next
      case (Some w)
      show ?thesis
      proof (cases "stubKey (ResponseName t) = stubKey (ResponseName td)")
        case True
        then have "ResponseName t = ResponseName td" by (rule stubKey_inj)
        then have "w = v" using Some Cons.prems(2) by (rule stubOf_consistent)
        with True Some show ?thesis
          by (simp add: acc typeDefinitionStep_snd update_conv')
      next
        case False
        with now Some show ?thesis
          by (auto simp: acc typeDefinitionStep_snd update_conv')
      qed
    qed
  qed
  then show ?case using Cons.IH [of ?acc'] Cons.prems(2) by simp
qed

lemma distinct_one_entry:
  "distinct (map fst al) \<Longrightarrow> length (filter (\<lambda>kv. fst kv = k) al) \<le> 1"
  by (induction al) (force simp: filter_empty_conv)+

text \<open>
  C10. The unhandled group holds at most one entry per response name: every key of the
  group is the stub key of the response name of a type definition, a stub key belongs to
  one response name only, and no key occurs twice. For a type definition whose response
  declares content-types outside the three families, the entry under its stub key is the
  unsupported stub of the last of them in sorted order; for one whose response declares
  no content it is the no-content stub, under the same key.
\<close>

theorem unhandled_one_stub_per_response_name:
  "length (filter (\<lambda>entry. fst entry = stubKey responseName)
             (snd (caseClauses X responses tds))) \<le> 1
   \<and> (\<forall>k \<in> set (map fst (snd (caseClauses X responses tds))).
         \<exists>td \<in> set tds. k = stubKey (ResponseName td))
   \<and> (stubKey responseName = stubKey responseName' \<longrightarrow> responseName = responseName')
   \<and> (td \<in> set tds \<and> TypeName td \<noteq> ''interface{}''
        \<and> responses (ResponseName td) = Some responseRef \<and> Value responseRef = Some rsp
        \<and> filter (\<lambda>ct. classify ct = UNRECOGNIZED) (SortedContentKeys (Content rsp)) = us
        \<and> us \<noteq> [] \<longrightarrow>
        map_of (snd (caseClauses X responses tds)) (stubKey (ResponseName td))
          = Some (unsupportedStub (ResponseName td) (last us)))
   \<and> (td \<in> set tds
        \<and> responses (ResponseName td) = Some responseRef \<and> Value responseRef = Some rsp
        \<and> Content rsp = [] \<longrightarrow>
        map_of (snd (caseClauses X responses tds)) (stubKey (ResponseName td))
          = Some (noContentStub (ResponseName td)))"
proof (intro conjI impI ballI)
  have "distinct (map fst (snd (caseClauses X responses tds)))"
    unfolding caseClauses_def by (rule typeDefinitions_fold_distinct) simp
  then show "length (filter (\<lambda>entry. fst entry = stubKey responseName)
             (snd (caseClauses X responses tds))) \<le> 1"
    by (rule distinct_one_entry)
next
  fix k
  assume "k \<in> set (map fst (snd (caseClauses X responses tds)))"
  then show "\<exists>td \<in> set tds. k = stubKey (ResponseName td)"
    unfolding caseClauses_def using typeDefinitions_fold_keys [of k X responses tds "([], [])"]
    by simp
next
  assume "stubKey responseName = stubKey responseName'"
  then show "responseName = responseName'" by (rule stubKey_inj)
next
  assume a: "td \<in> set tds \<and> TypeName td \<noteq> ''interface{}''
        \<and> responses (ResponseName td) = Some responseRef \<and> Value responseRef = Some rsp
        \<and> filter (\<lambda>ct. classify ct = UNRECOGNIZED) (SortedContentKeys (Content rsp)) = us
        \<and> us \<noteq> []"
  then have "Content rsp \<noteq> []"
    by (auto simp: SortedContentKeys_def)
  with a have "stubOf responses td = Some (unsupportedStub (ResponseName td) (last us))"
    by (auto simp: stubOf_def split: list.splits)
  with a show "map_of (snd (caseClauses X responses tds)) (stubKey (ResponseName td))
          = Some (unsupportedStub (ResponseName td) (last us))"
    unfolding caseClauses_def
    using typeDefinitions_fold_value [of td tds "([], [])" _ responses X] by simp
next
  assume a: "td \<in> set tds
        \<and> responses (ResponseName td) = Some responseRef \<and> Value responseRef = Some rsp
        \<and> Content rsp = []"
  then have "stubOf responses td = Some (noContentStub (ResponseName td))"
    by (simp add: stubOf_def)
  with a show "map_of (snd (caseClauses X responses tds)) (stubKey (ResponseName td))
          = Some (noContentStub (ResponseName td))"
    unfolding caseClauses_def
    using typeDefinitions_fold_value [of td tds "([], [])" _ responses X] by simp
qed

theorem unhandled_one_stub_per_response_name_witness:
  "map_of (snd (caseClauses (sampleExternals csvTypes []) csvResponses csvTypes)) (stubKey ''200'')
     = Some (unsupportedStub ''200'' ''text/plain'')
   \<and> length (filter (\<lambda>entry. fst entry = stubKey ''200'')
        (snd (caseClauses (sampleExternals csvTypes []) csvResponses csvTypes))) \<le> 1
   \<and> map_of (snd (caseClauses (sampleExternals noContentTypes []) noContentResponses
        noContentTypes)) (stubKey ''204'') = Some (noContentStub ''204'')"
proof -
  let ?td = "sampleType ''200'' ''application/json'' ''JSON200'' (namedSchema ''Pet'')"
  let ?rsp = "\<lparr>Content = [''text/plain'', ''application/json'', ''text/csv'']\<rparr>"
  have us: "filter (\<lambda>ct. classify ct = UNRECOGNIZED) (SortedContentKeys (Content ?rsp))
      = [''text/csv'', ''text/plain'']"
    by code_simp
  have td: "?td \<in> set csvTypes \<and> TypeName ?td \<noteq> ''interface{}'' \<and> ResponseName ?td = ''200''"
    by (simp add: csvTypes_def sampleType_def)
  have rsp: "csvResponses ''200'' = Some \<lparr>Value = Some ?rsp\<rparr>"
    by (simp add: csvResponses_def)
  let ?nd = "sampleType ''204'' [] ''Empty'' (namedSchema ''struct{}'')"
  have nd: "?nd \<in> set noContentTypes \<and> ResponseName ?nd = ''204''"
    by (simp add: noContentTypes_def sampleType_def)
  have nrsp: "noContentResponses ''204'' = Some \<lparr>Value = Some \<lparr>Content = []\<rparr>\<rparr>"
    by (simp add: noContentResponses_def)
  have first: "map_of (snd (caseClauses (sampleExternals csvTypes []) csvResponses csvTypes))
        (stubKey ''200'') = Some (unsupportedStub ''200'' ''text/plain'')
      \<and> length (filter (\<lambda>entry. fst entry = stubKey ''200'')
        (snd (caseClauses (sampleExternals csvTypes []) csvResponses csvTypes))) \<le> 1"
    using unhandled_one_stub_per_response_name [of "''200''" "sampleExternals csvTypes []"
        csvResponses csvTypes "''200''" ?td "\<lparr>Value = Some ?rsp\<rparr>" ?rsp
        "[''text/csv'', ''text/plain'']"] us td rsp
    by simp
  have second: "map_of (snd (caseClauses (sampleExternals noContentTypes []) noContentResponses
        noContentTypes)) (stubKey ''204'') = Some (noContentStub ''204'')"
    using unhandled_one_stub_per_response_name [of "''204''" "sampleExternals noContentTypes []"
        noContentResponses noContentTypes "''204''" ?nd "\<lparr>Value = Some \<lparr>Content = []\<rparr>\<rparr>"
        "\<lparr>Content = []\<rparr>" "[]"] nd nrsp
    by simp
  from first second show ?thesis by simp
qed

end
